theory Spec2Isabelle
  imports Main
begin

section \<open>The syntax trees the analyser reads\<close>

text \<open>
  The program (\<^verbatim>\<open>complexity.py\<close>) works on the trees of Python's \<^verbatim>\<open>ast\<close> module.
  Only the node classes the program tells apart are kept apart here; every other class is
  represented by its class name and its children.

  \<^item> \<open>const_value\<close> is the value carried by an \<^verbatim>\<open>ast.Constant\<close> node.
  \<^item> \<open>expr\<close>: \<^verbatim>\<open>Constant\<close>, \<^verbatim>\<open>List\<close>, \<^verbatim>\<open>Tuple\<close>, \<^verbatim>\<open>Set\<close>, \<^verbatim>\<open>Dict\<close>
    (keys, values; a key is absent for a \<^verbatim>\<open>**d\<close> entry), \<^verbatim>\<open>Call\<close> (func, args, keywords),
    \<^verbatim>\<open>Name\<close> (id), and \<open>OtherExpr\<close> for any other expression class (attribute access,
    subscript, arithmetic, comprehension, starred argument, f-string, ...).
  \<^item> \<open>stmt\<close>: \<^verbatim>\<open>For\<close> (target, iter, body, orelse), \<^verbatim>\<open>While\<close> (test, body, orelse),
    \<^verbatim>\<open>Expr\<close> (an expression statement), and \<open>OtherStmt\<close> for any other statement class
    (\<^verbatim>\<open>If\<close>, \<^verbatim>\<open>With\<close>, \<^verbatim>\<open>Try\<close>, \<^verbatim>\<open>FunctionDef\<close>, \<^verbatim>\<open>AsyncFor\<close>, \<^verbatim>\<open>Assign\<close>, ...)
    with the statements found below it, in the order of its fields.
  An expression of Python never contains a statement, so \<open>expr\<close> does not mention \<open>stmt\<close>.
\<close>

datatype const_value = NoneC | BoolC bool | IntC int | StrC string | OtherC string

datatype expr =
    Constant const_value
  | List "expr list"
  | Tuple "expr list"
  | Set "expr list"
  | Dict "expr option list" "expr list"
  | Call expr "expr list" "(string option \<times> expr) list"
  | Name string
  | OtherExpr string "expr list"

datatype stmt =
    For expr expr "stmt list" "stmt list"
  | While expr "stmt list" "stmt list"
  | Expr expr
  | OtherStmt string "stmt list"

datatype module = Module "stmt list"


section \<open>1. The simplified representation of the loop iterable\<close>

text \<open>\<^verbatim>\<open>isinstance(arg, ast.Constant)\<close>.\<close>

fun is_Constant :: "expr \<Rightarrow> bool" where
  "is_Constant (Constant c) = True"
| "is_Constant e = False"

text \<open>The f-string \<^verbatim>\<open>f"len({name})"\<close>.\<close>

definition len_of :: "string \<Rightarrow> string" where
  "len_of name = ''len('' @ name @ '')''"

text \<open>
  The body of the loop of lines 47 to 56, run on one argument that is not a Constant:
  a Name gives \<^verbatim>\<open>len(<id>)\<close>; a Call whose func is the Name \<^verbatim>\<open>len\<close>, whose args are not
  empty and whose \<^verbatim>\<open>args[0]\<close> is a Name gives \<^verbatim>\<open>len(<that id>)\<close>; anything else gives
  \<^verbatim>\<open>len(other)\<close>.
\<close>

definition nonconstant_arg :: "expr \<Rightarrow> string" where
  "nonconstant_arg arg =
     (case arg of
        Name x \<Rightarrow> len_of x
      | Call f as ks \<Rightarrow>
          (case f of
             Name fn \<Rightarrow>
               (if fn = ''len'' then
                  (case as of
                     [] \<Rightarrow> ''len(other)''
                   | a0 # _ \<Rightarrow> (case a0 of Name y \<Rightarrow> len_of y | _ \<Rightarrow> ''len(other)''))
                else ''len(other)'')
           | _ \<Rightarrow> ''len(other)'')
      | _ \<Rightarrow> ''len(other)'')"

text \<open>
  The loop \<^verbatim>\<open>for arg in iter_node.args\<close> of lines 47 to 57: it returns at the first argument
  that is not a Constant, and line 57 returns \<^verbatim>\<open>len(other)\<close> when the loop runs out.
\<close>

fun first_nonconstant :: "expr list \<Rightarrow> string" where
  "first_nonconstant [] = ''len(other)''"
| "first_nonconstant (arg # rest) =
     (if \<not> is_Constant arg then nonconstant_arg arg else first_nonconstant rest)"

fun extract_iterable :: "expr \<Rightarrow> string" where
  "extract_iterable (Constant c) = ''c''"
| "extract_iterable (List es) = ''c''"
| "extract_iterable (Tuple es) = ''c''"
| "extract_iterable (Set es) = ''c''"
| "extract_iterable (Dict ks vs) = ''c''"
| "extract_iterable (Call f as ks) =
     (case f of
        Name fname \<Rightarrow>
          (if fname = ''range'' then
             (if list_all is_Constant as then ''c'' else first_nonconstant as)
           else if fname = ''len'' then
             (case as of
                [] \<Rightarrow> ''len(other)''
              | a0 # _ \<Rightarrow> (case a0 of Name x \<Rightarrow> len_of x | _ \<Rightarrow> ''len(other)''))
           else ''len(other)'')
      | _ \<Rightarrow> ''len(other)'')"
| "extract_iterable (Name x) = len_of x"
| "extract_iterable (OtherExpr k es) = ''len(other)''"


section \<open>2. The hierarchical loop tree\<close>

text \<open>
  \<^verbatim>\<open>class LoopNode\<close> has the attributes \<^verbatim>\<open>node\<close>, \<^verbatim>\<open>loop_type\<close>, \<^verbatim>\<open>iterable\<close> and
  \<^verbatim>\<open>children\<close>. Its docstring fixes \<^verbatim>\<open>loop_type\<close> to \<^verbatim>\<open>"For"\<close>, \<^verbatim>\<open>"While"\<close> or \<^verbatim>\<open>None\<close>
  (the root) and gives an \<^verbatim>\<open>iterable\<close> to For loops only, and the program builds no other
  node: the root in \<^verbatim>\<open>LoopTreeVisitor.__init__\<close> (node \<^verbatim>\<open>"Global Root"\<close>), a For node in
  \<^verbatim>\<open>visit_For\<close>, a While node in \<^verbatim>\<open>visit_While\<close>. The three shapes are the three
  constructors:
  \<^item> \<open>RootNode children\<close>: \<^verbatim>\<open>loop_type is None\<close>;
  \<^item> \<open>ForNode node iterable children\<close>: \<^verbatim>\<open>loop_type == "For"\<close>;
  \<^item> \<open>WhileNode node children\<close>: \<^verbatim>\<open>loop_type == "While"\<close>.
  With them the last line of \<^verbatim>\<open>compute_complexity\<close> (\<^verbatim>\<open>return "1"  # Fallback\<close>, for a
  \<^verbatim>\<open>loop_type\<close> that is none of the three) has no input.
\<close>

datatype LoopNode =
    RootNode "LoopNode list"
  | ForNode stmt string "LoopNode list"
  | WhileNode stmt "LoopNode list"

fun children :: "LoopNode \<Rightarrow> LoopNode list" where
  "children (RootNode ch) = ch"
| "children (ForNode nd it ch) = ch"
| "children (WhileNode nd ch) = ch"

text \<open>\<^verbatim>\<open>parent.children.append(child)\<close>.\<close>

fun children_append :: "LoopNode \<Rightarrow> LoopNode \<Rightarrow> LoopNode" where
  "children_append (RootNode ch) c = RootNode (ch @ [c])"
| "children_append (ForNode nd it ch) c = ForNode nd it (ch @ [c])"
| "children_append (WhileNode nd ch) c = WhileNode nd (ch @ [c])"

text \<open>Storing a value in the slot \<open>i\<close> of a node's children.\<close>

fun children_update :: "LoopNode \<Rightarrow> nat \<Rightarrow> LoopNode \<Rightarrow> LoopNode" where
  "children_update (RootNode ch) i c = RootNode (ch[i := c])"
| "children_update (ForNode nd it ch) i c = ForNode nd it (ch[i := c])"
| "children_update (WhileNode nd ch) i c = WhileNode nd (ch[i := c])"

text \<open>
  \<^verbatim>\<open>class LoopTreeVisitor\<close>. Its state is \<^verbatim>\<open>loop_stack\<close>, kept here with the top of the
  stack (\<^verbatim>\<open>loop_stack[-1]\<close>) at the head of the list; \<^verbatim>\<open>self.root\<close> is the object at the
  bottom of the stack (\<^verbatim>\<open>loop_stack[0]\<close>).

  In Python the nodes are shared objects: \<^verbatim>\<open>visit_For\<close> appends the new node to the
  children of the top of the stack and pushes the same object, so the children added to
  it while it is on the stack are seen through its parent. Here the stack holds values:
  \<open>push_loop\<close> appends the new node to the parent at a slot \<open>i\<close> and pushes it, and
  \<open>pop_loop\<close> stores the popped value back in that slot of the node below it.

  \<^verbatim>\<open>self.loop_stack[-1]\<close> and \<^verbatim>\<open>self.loop_stack.pop()\<close> raise IndexError on an empty list.
\<close>

datatype error = IndexError

type_synonym LoopTreeVisitor = "LoopNode list"

definition LoopTreeVisitor_init :: "LoopTreeVisitor" where
  "LoopTreeVisitor_init = [RootNode []]"

definition root :: "LoopTreeVisitor \<Rightarrow> LoopNode" where
  "root v = last v"

definition push_loop :: "LoopNode \<Rightarrow> LoopTreeVisitor \<Rightarrow> error + (nat \<times> LoopTreeVisitor)" where
  "push_loop new_loop v =
     (case v of
        [] \<Rightarrow> Inl IndexError
      | parent # rest \<Rightarrow>
          Inr (length (children parent), new_loop # children_append parent new_loop # rest))"

definition pop_loop :: "nat \<Rightarrow> LoopTreeVisitor \<Rightarrow> error + LoopTreeVisitor" where
  "pop_loop i v =
     (case v of
        [] \<Rightarrow> Inl IndexError
      | popped # below \<Rightarrow>
          (case below of
             [] \<Rightarrow> Inr []
           | parent # rest \<Rightarrow> Inr (children_update parent i popped # rest)))"

text \<open>
  \<^verbatim>\<open>visit\<close> is \<^verbatim>\<open>ast.NodeVisitor.visit\<close> of Python's standard library: it calls
  \<^verbatim>\<open>visit_For\<close> on a For node, \<^verbatim>\<open>visit_While\<close> on a While node and \<^verbatim>\<open>generic_visit\<close>
  on a node of any other class, which visits the node's children in the order of its
  fields. Below an expression there is no statement, so visiting an expression statement
  leaves the visitor as it is. \<open>visit_stmts\<close> is the loop \<^verbatim>\<open>for stmt in ...: self.visit(stmt)\<close>,
  which an exception leaves at once.
\<close>

fun visit :: "stmt \<Rightarrow> LoopTreeVisitor \<Rightarrow> error + LoopTreeVisitor"
  and visit_stmts :: "stmt list \<Rightarrow> LoopTreeVisitor \<Rightarrow> error + LoopTreeVisitor" where
  "visit (For target iter body orelse) v =
     (let iterable = extract_iterable iter;
          new_loop = ForNode (For target iter body orelse) iterable []
      in case push_loop new_loop v of
           Inl e \<Rightarrow> Inl e
         | Inr (i, v1) \<Rightarrow>
             (case visit_stmts body v1 of
                Inl e \<Rightarrow> Inl e
              | Inr v2 \<Rightarrow>
                  (case visit_stmts orelse v2 of
                     Inl e \<Rightarrow> Inl e
                   | Inr v3 \<Rightarrow> pop_loop i v3)))"
| "visit (While test body orelse) v =
     (let new_loop = WhileNode (While test body orelse) []
      in case push_loop new_loop v of
           Inl e \<Rightarrow> Inl e
         | Inr (i, v1) \<Rightarrow>
             (case visit_stmts body v1 of
                Inl e \<Rightarrow> Inl e
              | Inr v2 \<Rightarrow>
                  (case visit_stmts orelse v2 of
                     Inl e \<Rightarrow> Inl e
                   | Inr v3 \<Rightarrow> pop_loop i v3)))"
| "visit (Expr e) v = Inr v"
| "visit (OtherStmt k ss) v = visit_stmts ss v"
| "visit_stmts [] v = Inr v"
| "visit_stmts (s # ss) v =
     (case visit s v of Inl e \<Rightarrow> Inl e | Inr v1 \<Rightarrow> visit_stmts ss v1)"

text \<open>
  The driver: \<^verbatim>\<open>visitor = LoopTreeVisitor(); visitor.visit(tree)\<close>, then \<^verbatim>\<open>visitor.root\<close>.
  The tree is a Module, which \<^verbatim>\<open>generic_visit\<close> handles.
\<close>

fun visit_module :: "module \<Rightarrow> LoopTreeVisitor \<Rightarrow> error + LoopTreeVisitor" where
  "visit_module (Module ss) v = visit_stmts ss v"

definition loop_tree :: "module \<Rightarrow> error + LoopNode" where
  "loop_tree tree =
     (case visit_module tree LoopTreeVisitor_init of
        Inl e \<Rightarrow> Inl e
      | Inr visitor \<Rightarrow> (case visitor of [] \<Rightarrow> Inl IndexError | _ \<Rightarrow> Inr (root visitor)))"


section \<open>3. The symbolic time complexity of a loop tree\<close>

text \<open>\<^verbatim>\<open>sep.join(items)\<close>.\<close>

fun join :: "string \<Rightarrow> string list \<Rightarrow> string" where
  "join sep [] = []"
| "join sep [x] = x"
| "join sep (x # y # ys) = x @ sep @ join sep (y # ys)"

fun compute_complexity :: "LoopNode \<Rightarrow> string" where
  "compute_complexity (RootNode ch) =
     (let costs = map compute_complexity ch;
          non_ones = filter (\<lambda>c. c \<noteq> ''1'') costs
      in if non_ones \<noteq> [] then join '' + '' non_ones else ''1'')"
| "compute_complexity (ForNode nd factor ch) =
     (let factor_expr = (if factor = ''c'' then ''1'' else factor);
          inner = (if ch \<noteq> [] then join '' + '' (map compute_complexity ch) else ''1'')
      in if inner = ''1'' then factor_expr
         else if factor_expr = ''1'' then inner
         else factor_expr @ ''*('' @ inner @ '')'')"
| "compute_complexity (WhileNode nd ch) =
     (let inner = (if ch \<noteq> [] then join '' + '' (map compute_complexity ch) else ''1'')
      in if inner = ''1'' then ''?'' else ''?*('' @ inner @ '')'')"

text \<open>The driver: the expression printed for a parsed program.\<close>

definition time_complexity :: "module \<Rightarrow> error + string" where
  "time_complexity tree =
     (case loop_tree tree of Inl e \<Rightarrow> Inl e | Inr r \<Rightarrow> Inr (compute_complexity r))"


section \<open>4. The sample program of the driver\<close>

text \<open>
  \<^verbatim>\<open>
  for i in range(1,n):
      for j in ['a', 'b', 'c']:
          print(i, j)
  for i in num:
      print(1)
  \<close>
\<close>

definition inner_for :: stmt where
  "inner_for =
     For (Name ''j'') (List [Constant (StrC ''a''), Constant (StrC ''b''), Constant (StrC ''c'')])
       [Expr (Call (Name ''print'') [Name ''i'', Name ''j''] [])] []"

definition outer_for :: stmt where
  "outer_for =
     For (Name ''i'') (Call (Name ''range'') [Constant (IntC 1), Name ''n''] [])
       [inner_for] []"

definition second_for :: stmt where
  "second_for =
     For (Name ''i'') (Name ''num'')
       [Expr (Call (Name ''print'') [Constant (IntC 1)] [])] []"

definition code :: module where
  "code = Module [outer_for, second_for]"


section \<open>Properties\<close>

subsection \<open>The classifier\<close>

text \<open>
  C10. The classifier tags a list, tuple, set or dict display as constant (\<^verbatim>\<open>"c"\<close>) from the
  kind of the outer node alone: whatever the elements are (function calls, identifiers, ...),
  the tag is \<^verbatim>\<open>"c"\<close> and not \<^verbatim>\<open>"len(other)"\<close>.
\<close>

theorem container_display_is_constant:
  "extract_iterable (List es) = ''c''
   \<and> extract_iterable (Tuple es) = ''c''
   \<and> extract_iterable (Set es) = ''c''
   \<and> extract_iterable (Dict keys vals) = ''c''
   \<and> extract_iterable (List es) \<noteq> ''len(other)''"
  by simp

theorem container_display_is_constant_witness:
  "extract_iterable (List [Call (Name ''f'') [] [], Name ''x'']) = ''c''
   \<and> extract_iterable (Tuple [Call (Name ''f'') [] [], Name ''x'']) = ''c''
   \<and> extract_iterable (Set [Call (Name ''f'') [] [], Name ''x'']) = ''c''
   \<and> extract_iterable (Dict [Some (Name ''k'')] [Call (Name ''f'') [] []]) = ''c''
   \<and> extract_iterable (List [Call (Name ''f'') [] [], Name ''x'']) \<noteq> ''len(other)''"
  using container_display_is_constant
    [of "[Call (Name ''f'') [] [], Name ''x'']" "[Some (Name ''k'')]" "[Call (Name ''f'') [] []]"]
  by simp

subsection \<open>The sample program\<close>

text \<open>
  C6. On the sample program of the driver (two top-level loops, the first with a nested
  loop over a list display) the visitor builds a root with two For nodes, the first holding
  the nested loop; the nested loop costs \<^verbatim>\<open>"1"\<close>, the outer loop \<^verbatim>\<open>"len(n)"\<close>, the second
  top-level loop \<^verbatim>\<open>"len(num)"\<close>, and the expression of the whole program is
  \<^verbatim>\<open>"len(n) + len(num)"\<close>.
\<close>

theorem sample_program_costs:
  "loop_tree code =
     Inr (RootNode [ForNode outer_for ''len(n)'' [ForNode inner_for ''c'' []],
                    ForNode second_for ''len(num)'' []])
   \<and> compute_complexity (ForNode inner_for ''c'' []) = ''1''
   \<and> compute_complexity (ForNode outer_for ''len(n)'' [ForNode inner_for ''c'' []]) = ''len(n)''
   \<and> compute_complexity (ForNode second_for ''len(num)'' []) = ''len(num)''
   \<and> time_complexity code = Inr ''len(n) + len(num)''"
  by (simp add: time_complexity_def loop_tree_def code_def outer_for_def inner_for_def
      second_for_def LoopTreeVisitor_init_def push_loop_def pop_loop_def root_def len_of_def
      nonconstant_arg_def)

end
